theory Spec2Isabelle
  imports Main "HOL-Library.Word"
begin

unbundle bit_operations_syntax

section \<open>Python values used by the appliance codec\<close>

text \<open>
  The command and response buffers of \<^verbatim>\<open>midea_beautiful_dehumidifier/command.py\<close> are
  Python \<^verbatim>\<open>bytearray\<close> and \<^verbatim>\<open>bytes\<close> objects: sequences of integers in 0..255. They are
  modelled as lists of 8-bit words. The values computed from them are Python integers
  (unbounded), modelled as \<^typ>\<open>int\<close>. Reading or writing an index outside the buffer
  raises \<^verbatim>\<open>IndexError\<close>, storing an integer outside 0..255 into a bytearray raises
  \<^verbatim>\<open>ValueError\<close>; both are values of \<open>py_error\<close>.
\<close>

type_synonym byte = "8 word"

datatype py_error = IndexError | ValueError

text \<open>\<^verbatim>\<open>data[i]\<close> for a constant index \<open>i \<ge> 0\<close>.\<close>

definition getitem :: "byte list \<Rightarrow> nat \<Rightarrow> py_error + int" where
  "getitem d i = (if i < length d then Inr (uint (d ! i)) else Inl IndexError)"

text \<open>\<^verbatim>\<open>data[i] = v\<close> on a bytearray: the index is checked first, then the value.\<close>

definition setitem :: "byte list \<Rightarrow> nat \<Rightarrow> int \<Rightarrow> py_error + byte list" where
  "setitem d i v =
     (if \<not> i < length d then Inl IndexError
      else if v < 0 \<or> 255 < v then Inl ValueError
      else Inr (d[i := word_of_int v]))"

text \<open>\<^verbatim>\<open>data[i:j]\<close> for constant bounds \<open>0 \<le> i\<close>, \<open>0 \<le> j\<close>: slicing clamps to the length and
  never raises.\<close>

definition getslice :: "byte list \<Rightarrow> nat \<Rightarrow> nat \<Rightarrow> byte list" where
  "getslice d i j = drop i (take j d)"

text \<open>\<^verbatim>\<open>sum(bs)\<close> over bytes: the integer sum of the byte values.\<close>

definition sum_bytes :: "byte list \<Rightarrow> int" where
  "sum_bytes bs = sum_list (map uint bs)"

text \<open>
  The augmented assignments \<^verbatim>\<open>data[i] &= v\<close> and \<^verbatim>\<open>data[i] |= v\<close>: read the byte,
  combine it with \<open>v\<close> as integers, store the result. The pair returned is the exception
  raised, if any, and the buffer as the statement leaves it.
\<close>

definition iand_item :: "byte list \<Rightarrow> nat \<Rightarrow> int \<Rightarrow> py_error option \<times> byte list" where
  "iand_item d i v =
     (case getitem d i of
        Inl e \<Rightarrow> (Some e, d)
      | Inr b \<Rightarrow>
          (case setitem d i (b AND v) of
             Inl e \<Rightarrow> (Some e, d)
           | Inr d' \<Rightarrow> (None, d')))"

definition ior_item :: "byte list \<Rightarrow> nat \<Rightarrow> int \<Rightarrow> py_error option \<times> byte list" where
  "ior_item d i v =
     (case getitem d i of
        Inl e \<Rightarrow> (Some e, d)
      | Inr b \<Rightarrow>
          (case setitem d i (b OR v) of
             Inl e \<Rightarrow> (Some e, d)
           | Inr d' \<Rightarrow> (None, d')))"

section \<open>Commands\<close>

text \<open>
  A command object has one attribute, the bytearray \<^verbatim>\<open>self.data\<close> of 33 bytes that its
  constructor builds; the object is modelled as that buffer.
\<close>

definition DehumidifierStatusCommand_init :: "byte list" where
  "DehumidifierStatusCommand_init =
     [0xAA, 0x20, 0xA1, 0x00, 0x00, 0x00, 0x00, 0x00, 0x03, 0x03,
      0x41, 0x81, 0x00, 0xFF, 0x03, 0xFF, 0x00, 0x02,
      0x00, 0x00, 0x00, 0x00, 0x00, 0x00, 0x00, 0x00, 0x00, 0x00, 0x00, 0x00,
      0x00, 0x00, 0x00]"

definition DehumidifierSetCommand_init :: "byte list" where
  "DehumidifierSetCommand_init =
     [0xAA, 0x20, 0xA1, 0x00, 0x00, 0x00, 0x00, 0x00, 0x03, 0x02,
      0x48, 0x00, 0x01, 0x32, 0x00, 0x00, 0x00, 0x00,
      0x00, 0x00, 0x00, 0x00, 0x00, 0x00, 0x00, 0x00, 0x00, 0x00, 0x00, 0x00,
      0x00, 0x00, 0x00]"

text \<open>
  \<^verbatim>\<open>finalize\<close> reads and writes the module-level variable \<^verbatim>\<open>_order\<close> (initially 0) and
  the object's buffer. The function \<^verbatim>\<open>crc8\<close> comes from the module
  \<^verbatim>\<open>midea_beautiful_dehumidifier.crypto\<close>, which is not among the sources: it is a
  parameter here, a function from a byte sequence to a byte. The result is the new value
  of \<^verbatim>\<open>_order\<close>, the buffer as the call leaves it, and either the exception raised or the
  bytes returned.
\<close>

definition DehumidifierStatusCommand_finalize ::
  "(byte list \<Rightarrow> byte) \<Rightarrow> int \<Rightarrow> byte list \<Rightarrow> int \<times> byte list \<times> (py_error + byte list)" where
  "DehumidifierStatusCommand_finalize crc8 order d =
     (let order' = (order + 1) AND 0xFF in
      case setitem d 30 order' of
        Inl e \<Rightarrow> (order', d, Inl e)
      | Inr d1 \<Rightarrow>
          (case setitem d1 31 (uint (crc8 (getslice d1 10 31))) of
             Inl e \<Rightarrow> (order', d1, Inl e)
           | Inr d2 \<Rightarrow>
               (case setitem d2 32 ((NOT (sum_bytes (getslice d2 1 32)) + 1) AND 0xFF) of
                  Inl e \<Rightarrow> (order', d2, Inl e)
                | Inr d3 \<Rightarrow> (order', d3, Inr d3))))"

definition DehumidifierSetCommand_finalize ::
  "(byte list \<Rightarrow> byte) \<Rightarrow> int \<Rightarrow> byte list \<Rightarrow> int \<times> byte list \<times> (py_error + byte list)" where
  "DehumidifierSetCommand_finalize crc8 order d =
     (let order' = (order + 1) AND 0xFF in
      case setitem d 30 order' of
        Inl e \<Rightarrow> (order', d, Inl e)
      | Inr d1 \<Rightarrow>
          (case setitem d1 31 (uint (crc8 (getslice d1 10 31))) of
             Inl e \<Rightarrow> (order', d1, Inl e)
           | Inr d2 \<Rightarrow>
               (case setitem d2 32 ((NOT (sum_bytes (getslice d2 1 32)) + 1) AND 0xFF) of
                  Inl e \<Rightarrow> (order', d2, Inl e)
                | Inr d3 \<Rightarrow> (order', d3, Inr d3))))"

subsection \<open>The properties of the set command\<close>

text \<open>A getter reads one byte and masks it; a setter clears the field's bits, then ors
  the new value in, in two statements.\<close>

definition is_on :: "byte list \<Rightarrow> py_error + bool" where
  "is_on d = (case getitem d 11 of Inl e \<Rightarrow> Inl e | Inr b \<Rightarrow> Inr (b AND 0x01 \<noteq> 0))"

definition set_is_on :: "bool \<Rightarrow> byte list \<Rightarrow> py_error option \<times> byte list" where
  "set_is_on state d =
     (case iand_item d 11 (NOT 0x01) of
        (Some e, d1) \<Rightarrow> (Some e, d1)
      | (None, d1) \<Rightarrow> ior_item d1 11 (if state then 0x01 else 0))"

definition ion_mode :: "byte list \<Rightarrow> py_error + bool" where
  "ion_mode d = (case getitem d 19 of Inl e \<Rightarrow> Inl e | Inr b \<Rightarrow> Inr (b AND 0x60 \<noteq> 0))"

definition set_ion_mode :: "bool \<Rightarrow> byte list \<Rightarrow> py_error option \<times> byte list" where
  "set_ion_mode mode d =
     (case iand_item d 19 (NOT 0x60) of
        (Some e, d1) \<Rightarrow> (Some e, d1)
      | (None, d1) \<Rightarrow> ior_item d1 19 (if mode then 0x60 else 0))"

definition target_humidity :: "byte list \<Rightarrow> py_error + int" where
  "target_humidity d = (case getitem d 17 of Inl e \<Rightarrow> Inl e | Inr b \<Rightarrow> Inr (b AND 0x7F))"

definition set_target_humidity :: "int \<Rightarrow> byte list \<Rightarrow> py_error option \<times> byte list" where
  "set_target_humidity humidity d =
     (case iand_item d 17 (NOT 0x7F) of
        (Some e, d1) \<Rightarrow> (Some e, d1)
      | (None, d1) \<Rightarrow> ior_item d1 17 humidity)"

definition mode :: "byte list \<Rightarrow> py_error + int" where
  "mode d = (case getitem d 12 of Inl e \<Rightarrow> Inl e | Inr b \<Rightarrow> Inr (b AND 0x0F))"

definition set_mode :: "int \<Rightarrow> byte list \<Rightarrow> py_error option \<times> byte list" where
  "set_mode m d =
     (case iand_item d 12 (NOT 0x0F) of
        (Some e, d1) \<Rightarrow> (Some e, d1)
      | (None, d1) \<Rightarrow> ior_item d1 12 m)"

definition fan_speed :: "byte list \<Rightarrow> py_error + int" where
  "fan_speed d = (case getitem d 13 of Inl e \<Rightarrow> Inl e | Inr b \<Rightarrow> Inr (b AND 0x7F))"

definition set_fan_speed :: "int \<Rightarrow> byte list \<Rightarrow> py_error option \<times> byte list" where
  "set_fan_speed speed d =
     (case iand_item d 13 (NOT 0x7F) of
        (Some e, d1) \<Rightarrow> (Some e, d1)
      | (None, d1) \<Rightarrow> ior_item d1 13 speed)"

section \<open>Responses\<close>

text \<open>
  \<^verbatim>\<open>DehumidifierResponse.__init__\<close> reads the received \<^verbatim>\<open>bytes\<close> at fixed offsets, in the
  order of the source, and stores the decoded attributes. The first read outside the
  buffer raises \<^verbatim>\<open>IndexError\<close> and no object is constructed. The attributes whose Python
  names start with an underscore carry the prefix \<open>resp\<close> here. The loop at the end of the
  constructor only logs the bytes.
\<close>

record DehumidifierResponse =
  resp_is_on :: bool
  resp_mode :: int
  resp_fan_speed :: int
  on_timer_value :: int
  on_timer_minutes :: int
  off_timer_value :: int
  off_timer_minutes :: int
  resp_target_humidity :: int
  resp_ion_mode :: bool
  resp_tank_full :: bool
  resp_current_humidity :: int
  resp_err_code :: int

definition bind_err :: "py_error + 'a \<Rightarrow> ('a \<Rightarrow> py_error + 'b) \<Rightarrow> py_error + 'b" where
  "bind_err r f = (case r of Inl e \<Rightarrow> Inl e | Inr x \<Rightarrow> f x)"

definition DehumidifierResponse_init :: "byte list \<Rightarrow> py_error + DehumidifierResponse" where
  "DehumidifierResponse_init data =
     bind_err (getitem data 0x04) (\<lambda>is_on_byte.
     bind_err (getitem data 0x02) (\<lambda>mode_byte.
     bind_err (getitem data 0x03) (\<lambda>fan_byte.
     bind_err (getitem data 0x04) (\<lambda>on_value.
     bind_err (getitem data 0x06) (\<lambda>on_minutes.
     bind_err (getitem data 0x05) (\<lambda>off_value.
     bind_err (getitem data 0x06) (\<lambda>off_minutes.
     bind_err (getitem data 0x07) (\<lambda>humidity.
     bind_err (getitem data 0x09) (\<lambda>ion_byte.
     bind_err (getitem data 0x0A) (\<lambda>tank_byte.
     bind_err (getitem data 0x10) (\<lambda>current.
     bind_err (getitem data 0x15) (\<lambda>err.
       Inr \<lparr> resp_is_on = (is_on_byte AND 1 \<noteq> 0),
             resp_mode = mode_byte AND 15,
             resp_fan_speed = fan_byte AND 0x7F,
             on_timer_value = on_value,
             on_timer_minutes = on_minutes,
             off_timer_value = off_value,
             off_timer_minutes = off_minutes,
             resp_target_humidity = (if humidity > 100 then 99 else humidity),
             resp_ion_mode = (drop_bit 6 (ion_byte AND 64) \<noteq> 0),
             resp_tank_full = (tank_byte AND 0x7F \<ge> 100),
             resp_current_humidity = current,
             resp_err_code = err \<rparr>))))))))))))"

text \<open>The dictionaries returned by the properties \<^verbatim>\<open>on_timer\<close> and \<^verbatim>\<open>off_timer\<close>; the key
  \<^verbatim>\<open>"set"\<close> is the field \<open>timer_set\<close>, the two raw values are \<open>raw_value\<close> and
  \<open>raw_minutes\<close>.\<close>

record timer =
  status :: bool
  timer_set :: bool
  hour :: int
  minutes :: int
  raw_value :: int
  raw_minutes :: int

definition on_timer :: "DehumidifierResponse \<Rightarrow> timer" where
  "on_timer r =
     \<lparr> status = (on_timer_value r AND 0x80 \<noteq> 0),
       timer_set = (on_timer_value r \<noteq> 0x7F),
       hour = (if on_timer_value r \<noteq> 0x7F then drop_bit 2 (on_timer_value r AND 0x7C) else 0),
       minutes = (on_timer_value r AND 0x3)
                 OR (if on_timer_value r \<noteq> 0x7F then drop_bit 4 (on_timer_minutes r AND 0xF0) else 0),
       raw_value = on_timer_value r,
       raw_minutes = on_timer_minutes r \<rparr>"

definition off_timer :: "DehumidifierResponse \<Rightarrow> timer" where
  "off_timer r =
     \<lparr> status = (off_timer_value r AND 0x80 \<noteq> 0),
       timer_set = (off_timer_value r \<noteq> 0x7F),
       hour = drop_bit 2 (off_timer_value r AND 0x7C),
       minutes = (off_timer_value r AND 0x3) OR (off_timer_minutes r AND 0xF),
       raw_value = off_timer_value r,
       raw_minutes = off_timer_minutes r \<rparr>"

section \<open>The cloud session\<close>

text \<open>
  The module \<^verbatim>\<open>midea_beautiful/cloud.py\<close> (the class \<^verbatim>\<open>MideaCloud\<close> with \<^verbatim>\<open>api_request\<close>) and
  the module of its exceptions are not among the sources; only their tests in
  \<^verbatim>\<open>tests/test_cloud.py\<close> are. This section models the request state machine from section
  4.3 of the specification. The HTTP peer is a function from an endpoint and the number of
  earlier requests to that endpoint to the reply, which is how the tests' mock serves its
  scripted replies; the requests sent are recorded in a history, as the mock does.
\<close>

text \<open>Modelled from the spec: the reply to one HTTP POST, which \<^verbatim>\<open>cloud.py\<close> (missing)
  receives: a network-level failure with its cause, or the envelope with its error code
  (0 when absent), message and optional result.\<close>

datatype 'r reply = RequestException string | Envelope int string "'r option"

text \<open>Modelled from the spec: the error taxonomy of section 7, defined in the missing
  module of exceptions.\<close>

datatype cloud_error =
    CloudError int string
  | CloudAuthenticationError int string
  | RetryLaterError int string
  | CloudRequestError string

text \<open>Modelled from the spec: the state of the missing class \<^verbatim>\<open>MideaCloud\<close>: the Session
  (the results of the login-id fetch and of the login, absent when there is no valid
  session), the two caches that a full restart refreshes, and the request history.\<close>

record 'r cloud =
  session :: "('r option \<times> 'r option) option"
  home_groups :: "'r option"
  appliance_list :: "'r option"
  history :: "string list"

text \<open>Modelled from the spec: the classes of error codes of step 3 of the state machine in
  the missing \<^verbatim>\<open>cloud.py\<close>.\<close>

datatype action = Success | SessionRestart | FullRestart | AuthenticationFailure
  | RetryLater | Ignore | Throw

text \<open>Modelled from the spec: the classification of \<^verbatim>\<open>errorCode\<close> in the missing
  \<^verbatim>\<open>cloud.py\<close>, as section 4.3 lists it, with one entry more. The specification names no
  code 9999; the test \<^verbatim>\<open>test_request_too_many_retries\<close> of \<^verbatim>\<open>tests/test_cloud.py\<close> fixes
  what the code does with it: a mock that always answers 9999, with no login endpoint
  registered, makes \<^verbatim>\<open>api_request\<close> raise \<^verbatim>\<open>CloudRequestError\<close> with the message
  "Too many retries while calling too-many-retries". So 9999 is ignored and the request
  sent again, without a new login, within the retry budget.\<close>

definition classify :: "int \<Rightarrow> action" where
  "classify code =
     (if code = 0 then Success
      else if code = 3106 then SessionRestart
      else if code = 3144 then FullRestart
      else if code = 3102 then AuthenticationFailure
      else if code = 7610 then RetryLater
      else if code = 9999 then Ignore
      else Throw)"

text \<open>Modelled from the spec: one HTTP POST of the missing \<^verbatim>\<open>cloud.py\<close>. The peer answers
  from the endpoint and the number of earlier requests to it; the request is appended to
  the history.\<close>

definition post :: "(string \<Rightarrow> nat \<Rightarrow> 'r reply) \<Rightarrow> string \<Rightarrow> 'r cloud \<Rightarrow> 'r reply \<times> 'r cloud" where
  "post server endpoint c =
     (server endpoint (count_list (history c) endpoint), c\<lparr>history := history c @ [endpoint]\<rparr>)"

text \<open>Modelled from the spec: the two request errors of the missing \<^verbatim>\<open>cloud.py\<close>; their
  messages are the ones the tests expect.\<close>

definition too_many_retries :: "string \<Rightarrow> cloud_error" where
  "too_many_retries endpoint = CloudRequestError (''Too many retries while calling '' @ endpoint)"

definition request_error :: "string \<Rightarrow> string \<Rightarrow> cloud_error" where
  "request_error cause endpoint =
     CloudRequestError (''Request error '' @ cause @ '' while calling '' @ endpoint)"

text \<open>Modelled from the spec: steps 2 to 5 of the state machine of the missing
  \<^verbatim>\<open>cloud.py\<close> (\<open>request\<close>), the login of step 1 (\<open>login\<close>: fetch the login id, then log in,
  then store the Session) and the refresh of the home group and of the appliance list that a
  full restart asks for (\<open>refresh_lists\<close>; the choice of the default home group among the
  groups is not modelled). The budget is the number of restarts still allowed for the
  logical request; the specification calls it "a fixed small number" and gives no value,
  so it is a parameter.\<close>

function (sequential) request ::
    "(string \<Rightarrow> nat \<Rightarrow> 'r reply) \<Rightarrow> nat \<Rightarrow> string \<Rightarrow> 'r cloud \<Rightarrow> (cloud_error + 'r option) \<times> 'r cloud"
  and login ::
    "(string \<Rightarrow> nat \<Rightarrow> 'r reply) \<Rightarrow> nat \<Rightarrow> 'r cloud \<Rightarrow> (cloud_error + unit) \<times> 'r cloud"
  and refresh_lists ::
    "(string \<Rightarrow> nat \<Rightarrow> 'r reply) \<Rightarrow> nat \<Rightarrow> 'r cloud \<Rightarrow> (cloud_error + unit) \<times> 'r cloud"
where
  "request server budget endpoint c =
     (case post server endpoint c of
        (RequestException cause, c1) \<Rightarrow> (Inl (request_error cause endpoint), c1)
      | (Envelope code msg res, c1) \<Rightarrow>
          (case classify code of
             Success \<Rightarrow> (Inr res, c1)
           | AuthenticationFailure \<Rightarrow> (Inl (CloudAuthenticationError code msg), c1)
           | RetryLater \<Rightarrow> (Inl (RetryLaterError code msg), c1)
           | Throw \<Rightarrow> (Inl (CloudError code msg), c1)
           | Ignore \<Rightarrow>
               (case budget of
                  0 \<Rightarrow> (Inl (too_many_retries endpoint), c1)
                | Suc b \<Rightarrow> request server b endpoint c1)
           | SessionRestart \<Rightarrow>
               (case budget of
                  0 \<Rightarrow> (Inl (too_many_retries endpoint), c1)
                | Suc b \<Rightarrow>
                    (case login server b (c1\<lparr>session := None\<rparr>) of
                       (Inl e, c2) \<Rightarrow> (Inl e, c2)
                     | (Inr u, c2) \<Rightarrow> request server b endpoint c2))
           | FullRestart \<Rightarrow>
               (case budget of
                  0 \<Rightarrow> (Inl (too_many_retries endpoint), c1)
                | Suc b \<Rightarrow>
                    (case login server b (c1\<lparr>session := None\<rparr>) of
                       (Inl e, c2) \<Rightarrow> (Inl e, c2)
                     | (Inr u, c2) \<Rightarrow>
                         (case refresh_lists server b c2 of
                            (Inl e, c3) \<Rightarrow> (Inl e, c3)
                          | (Inr u', c3) \<Rightarrow> request server b endpoint c3)))))"
| "login server budget c =
     (case request server budget ''user/login/id/get'' c of
        (Inl e, c1) \<Rightarrow> (Inl e, c1)
      | (Inr login_id, c1) \<Rightarrow>
          (case request server budget ''user/login'' c1 of
             (Inl e, c2) \<Rightarrow> (Inl e, c2)
           | (Inr s, c2) \<Rightarrow> (Inr (), c2\<lparr>session := Some (login_id, s)\<rparr>)))"
| "refresh_lists server budget c =
     (case request server budget ''homegroup/list/get'' c of
        (Inl e, c1) \<Rightarrow> (Inl e, c1)
      | (Inr groups, c1) \<Rightarrow>
          (case request server budget ''appliance/list/get'' (c1\<lparr>home_groups := groups\<rparr>) of
             (Inl e, c2) \<Rightarrow> (Inl e, c2)
           | (Inr apps, c2) \<Rightarrow> (Inr (), c2\<lparr>appliance_list := apps\<rparr>)))"
  by pat_completeness auto
termination
  by (relation "measure (\<lambda>x. case x of
         Inl (server, budget, endpoint, c) \<Rightarrow> 2 * budget
       | Inr (Inl (server, budget, c)) \<Rightarrow> 2 * budget + 1
       | Inr (Inr (server, budget, c)) \<Rightarrow> 2 * budget + 1)") auto

text \<open>Modelled from the spec: \<^verbatim>\<open>MideaCloud.api_request\<close> of the missing \<^verbatim>\<open>cloud.py\<close>: when
  the caller asks for authentication and there is no valid session, log in first; then
  send the request under the retry policy.\<close>

definition api_request ::
  "(string \<Rightarrow> nat \<Rightarrow> 'r reply) \<Rightarrow> nat \<Rightarrow> string \<Rightarrow> bool \<Rightarrow> 'r cloud \<Rightarrow> (cloud_error + 'r option) \<times> 'r cloud" where
  "api_request server budget endpoint authenticate c =
     (if authenticate \<and> session c = None then
        (case login server budget c of
           (Inl e, c1) \<Rightarrow> (Inl e, c1)
         | (Inr u, c1) \<Rightarrow> request server budget endpoint c1)
      else request server budget endpoint c)"

subsection \<open>The fixtures of the tests\<close>

text \<open>The client of the fixture \<^verbatim>\<open>cloud_client\<close> in \<^verbatim>\<open>tests/test_cloud.py\<close>: no session, empty
  caches, nothing sent yet.\<close>

definition cloud_client :: "string cloud" where
  "cloud_client = \<lparr> session = None, home_groups = None, appliance_list = None, history = [] \<rparr>"

text \<open>The mock of \<^verbatim>\<open>test_request_error\<close>: the endpoint \<^verbatim>\<open>dummy\<close> always answers error code 2;
  the mock refuses any other address with a connection error.\<close>

definition mock_request_error :: "string \<Rightarrow> nat \<Rightarrow> string reply" where
  "mock_request_error endpoint k =
     (if endpoint = ''dummy'' then Envelope 2 ''error message'' None
      else RequestException ''No mock address'')"

text \<open>The mock of \<^verbatim>\<open>test_request_too_many_retries\<close>: the endpoint always answers 9999.\<close>

definition mock_too_many_retries :: "string \<Rightarrow> nat \<Rightarrow> string reply" where
  "mock_too_many_retries endpoint k =
     (if endpoint = ''too-many-retries'' then Envelope 9999 ''internal error - ignore'' None
      else RequestException ''No mock address'')"

text \<open>The mock of \<^verbatim>\<open>test_session_restart\<close>: \<^verbatim>\<open>dummy\<close> answers 3106 once, then the result; the
  two login endpoints and the home group endpoint answer with success.\<close>

definition mock_session_restart :: "string \<Rightarrow> nat \<Rightarrow> string reply" where
  "mock_session_restart endpoint k =
     (if endpoint = ''dummy'' then
        (if k = 0 then Envelope 3106 ''session restart'' None
         else Envelope 0 [] (Some ''response text''))
      else if endpoint = ''user/login/id/get'' then Envelope 0 [] (Some ''test-login'')
      else if endpoint = ''user/login'' then Envelope 0 [] (Some ''session-1'')
      else if endpoint = ''homegroup/list/get'' then Envelope 0 [] (Some ''test-login'')
      else RequestException ''No mock address'')"

section \<open>Facts about bytes and buffers\<close>

lemma and_255_range: "0 \<le> (x::int) AND 0xFF \<and> x AND 0xFF \<le> 255"
  by (simp add: AND_upper2)

lemma and_255_mod: "(x::int) AND 0xFF = x mod 256"
proof -
  have "x AND 0xFF = x AND mask 8" by (simp add: mask_eq_exp_minus_1)
  also have "\<dots> = take_bit 8 x" by (simp add: take_bit_eq_mask)
  also have "\<dots> = x mod 256" by (simp add: take_bit_eq_mod)
  finally show ?thesis .
qed

lemma neg_and_255: "(NOT (s::int) + 1) AND 0xFF = (- s) mod 256"
  by (simp add: and_255_mod not_int_def)

lemma uint_byte_range: "0 \<le> uint (b::byte) \<and> uint b \<le> 255"
  using uint_lt2p[of b] by simp

lemma uint_word_of_int_byte: "0 \<le> x \<Longrightarrow> x \<le> 255 \<Longrightarrow> uint (word_of_int x :: byte) = x"
  by (simp add: uint_word_of_int)

lemma setitem_ok:
  "i < length d \<Longrightarrow> 0 \<le> v \<Longrightarrow> v \<le> 255 \<Longrightarrow> setitem d i v = Inr (d[i := word_of_int v])"
  by (simp add: setitem_def)

lemma getslice_after_trailer:
  "getslice (d[31 := a, 32 := b]) 10 31 = getslice d 10 31"
  "getslice (d[32 := b]) 1 32 = getslice d 1 32"
  by (simp_all add: getslice_def)

lemma getslice_order_byte:
  assumes "length d = 33"
  shows "getslice (d[30 := w]) 10 31 = getslice d 10 30 @ [w]"
proof -
  have "take (Suc 30) (d[30 := w]) = take 30 (d[30 := w]) @ [d[30 := w] ! 30]"
    by (rule take_Suc_conv_app_nth) (use assms in simp)
  then have "take 31 (d[30 := w]) = take 30 d @ [w]"
    using assms by simp
  then show ?thesis
    using assms by (simp add: getslice_def)
qed

lemma sum_bytes_getslice:
  assumes "32 \<le> length d"
  shows "sum_bytes (getslice d 1 32) = (\<Sum>i = 1..31. uint (d ! i))"
proof -
  have "getslice d 1 32 = map (\<lambda>i. d ! i) [1..<32]"
    unfolding getslice_def using assms
    by (intro nth_equalityI) (auto simp: nth_append)
  then have "sum_bytes (getslice d 1 32) = sum_list (map (\<lambda>i. uint (d ! i)) [1..<32])"
    by (simp add: sum_bytes_def comp_def)
  also have "\<dots> = (\<Sum>i = 1..<32. uint (d ! i))"
    by (simp add: interv_sum_list_conv_sum_set_nat)
  also have "{1..<32::nat} = {1..31}" by auto
  finally show ?thesis .
qed

lemma sum_bytes_trailer:
  assumes "length d = 33"
  shows "sum_bytes (getslice d 1 32) = (\<Sum>i = 1..31. uint (d[32 := b] ! i))"
proof -
  have "(\<Sum>i = 1..31. uint (d[32 := b] ! i)) = (\<Sum>i = 1..31. uint (d ! i))"
    by (rule sum.cong) auto
  moreover have "sum_bytes (getslice d 1 32) = (\<Sum>i = 1..31. uint (d ! i))"
    by (rule sum_bytes_getslice) (use assms in simp)
  ultimately show ?thesis by (simp only:)
qed

section \<open>Finalizing a command\<close>

text \<open>On a buffer of 33 bytes, which is what both constructors build, no statement of
  \<^verbatim>\<open>finalize\<close> raises, and the three stores happen one after the other.\<close>

lemma status_finalize_33:
  assumes "length d = 33"
  shows "DehumidifierStatusCommand_finalize crc8 order d =
    (let d1 = d[30 := word_of_int ((order + 1) AND 0xFF)];
         d2 = d1[31 := crc8 (getslice d1 10 31)];
         d3 = d2[32 := word_of_int ((NOT (sum_bytes (getslice d2 1 32)) + 1) AND 0xFF)]
     in ((order + 1) AND 0xFF, d3, Inr d3))"
  using assms and_255_range[of "order + 1"]
    and_255_range[of "NOT (sum_bytes (getslice (d[30 := word_of_int ((order + 1) AND 0xFF), 31 := crc8 (getslice (d[30 := word_of_int ((order + 1) AND 0xFF)]) 10 31)]) 1 32)) + 1"]
    uint_byte_range[of "crc8 (getslice (d[30 := word_of_int ((order + 1) AND 0xFF)]) 10 31)"]
  by (simp add: DehumidifierStatusCommand_finalize_def Let_def setitem_ok)

lemma set_finalize_33:
  assumes "length d = 33"
  shows "DehumidifierSetCommand_finalize crc8 order d =
    (let d1 = d[30 := word_of_int ((order + 1) AND 0xFF)];
         d2 = d1[31 := crc8 (getslice d1 10 31)];
         d3 = d2[32 := word_of_int ((NOT (sum_bytes (getslice d2 1 32)) + 1) AND 0xFF)]
     in ((order + 1) AND 0xFF, d3, Inr d3))"
  using assms and_255_range[of "order + 1"]
    and_255_range[of "NOT (sum_bytes (getslice (d[30 := word_of_int ((order + 1) AND 0xFF), 31 := crc8 (getslice (d[30 := word_of_int ((order + 1) AND 0xFF)]) 10 31)]) 1 32)) + 1"]
    uint_byte_range[of "crc8 (getslice (d[30 := word_of_int ((order + 1) AND 0xFF)]) 10 31)"]
  by (simp add: DehumidifierSetCommand_finalize_def Let_def setitem_ok)

text \<open>
  Claim C10. For every command buffer (33 bytes) and every call of \<^verbatim>\<open>finalize\<close>, of either
  class, the call returns the buffer it leaves, of the same length, and every byte at the
  offsets 0 to 29 keeps its value: only the order byte at 30, the CRC8 byte at 31 and the
  checksum byte at 32 can change.
\<close>

theorem finalize_changes_only_trailer:
  assumes "length d = 33"
  shows "(\<exists>order' d'. DehumidifierStatusCommand_finalize crc8 order d = (order', d', Inr d')
            \<and> length d' = 33 \<and> (\<forall>i<30. d' ! i = d ! i))
       \<and> (\<exists>order' d'. DehumidifierSetCommand_finalize crc8 order d = (order', d', Inr d')
            \<and> length d' = 33 \<and> (\<forall>i<30. d' ! i = d ! i))"
  using assms by (simp add: status_finalize_33 set_finalize_33 Let_def)

theorem finalize_changes_only_trailer_witness:
  "length DehumidifierSetCommand_init = 33
   \<and> (\<exists>order' d'. DehumidifierStatusCommand_finalize sum_list 0 DehumidifierSetCommand_init
                     = (order', d', Inr d')
            \<and> length d' = 33 \<and> (\<forall>i<30. d' ! i = DehumidifierSetCommand_init ! i))
   \<and> (\<exists>order' d'. DehumidifierSetCommand_finalize sum_list 0 DehumidifierSetCommand_init
                     = (order', d', Inr d')
            \<and> length d' = 33 \<and> (\<forall>i<30. d' ! i = DehumidifierSetCommand_init ! i))"
proof -
  have len: "length DehumidifierSetCommand_init = 33"
    by (simp add: DehumidifierSetCommand_init_def)
  show ?thesis
    using len finalize_changes_only_trailer [OF len, of sum_list 0] by simp
qed

text \<open>
  Claim C7. Every call of \<^verbatim>\<open>finalize\<close>, of either class, replaces the one module-level counter
  \<^verbatim>\<open>_order\<close> by its successor modulo 256 and writes the new value at offset 30. The two
  classes share the counter: finalizing a status command and then a set command advances it
  by two. The value written is between 0 and 255, and after 255 it is 0.
\<close>

theorem finalize_order_counter:
  assumes "length d = 33" and "length e = 33"
  shows "(\<exists>d'. DehumidifierStatusCommand_finalize crc8 order d = ((order + 1) mod 256, d', Inr d')
            \<and> uint (d' ! 30) = (order + 1) mod 256)
       \<and> (\<exists>d'. DehumidifierSetCommand_finalize crc8 order d = ((order + 1) mod 256, d', Inr d')
            \<and> uint (d' ! 30) = (order + 1) mod 256)
       \<and> fst (DehumidifierSetCommand_finalize crc8
                (fst (DehumidifierStatusCommand_finalize crc8 order d)) e) = (order + 2) mod 256
       \<and> 0 \<le> (order + 1) mod 256 \<and> (order + 1) mod 256 \<le> 255
       \<and> (order = 255 \<longrightarrow> (order + 1) mod 256 = 0)"
proof -
  have "((order + 1) mod 256 + 1) mod 256 = (order + 2) mod 256"
    by presburger
  then show ?thesis
    using assms
    by (simp add: status_finalize_33 set_finalize_33 Let_def and_255_mod uint_word_of_int_byte)
qed

theorem finalize_order_counter_witness:
  "length DehumidifierStatusCommand_init = 33
   \<and> fst (DehumidifierStatusCommand_finalize sum_list 255 DehumidifierStatusCommand_init) = 0
   \<and> fst (DehumidifierSetCommand_finalize sum_list 255 DehumidifierStatusCommand_init) = 0"
proof -
  have len: "length DehumidifierStatusCommand_init = 33"
    by (simp add: DehumidifierStatusCommand_init_def)
  show ?thesis
    using len finalize_order_counter [OF len len, of sum_list 255] by auto
qed

text \<open>
  Claim C6. For every command buffer \<open>d\<close> (33 bytes), \<^verbatim>\<open>finalize\<close> of either class returns a
  buffer \<open>d'\<close> whose bytes at the offsets 0 to 29 are those of \<open>d\<close>, whose byte 30 is the new
  order counter, whose byte 31 is the CRC8 of the bytes 10 to 29 of \<open>d\<close> followed by the
  order byte, and whose byte 32 is the two's complement, modulo 256, of the sum of the bytes
  of \<open>d'\<close> at the offsets 1 to 31: the bytes 1 to 29 of the command, the order byte and the
  CRC8 byte.
\<close>

theorem finalize_checksum:
  assumes "length d = 33"
  shows "(\<exists>order' d'. DehumidifierStatusCommand_finalize crc8 order d = (order', d', Inr d')
            \<and> length d' = 33
            \<and> (\<forall>i<30. d' ! i = d ! i)
            \<and> uint (d' ! 30) = (order + 1) mod 256
            \<and> d' ! 31 = crc8 (getslice d 10 30 @ [d' ! 30])
            \<and> uint (d' ! 32) = (- (\<Sum>i = 1..31. uint (d' ! i))) mod 256
            \<and> uint (d' ! 32) = (- ((\<Sum>i = 1..29. uint (d ! i)) + (order + 1) mod 256
                                    + uint (crc8 (getslice d 10 30 @ [d' ! 30])))) mod 256)
       \<and> (\<exists>order' d'. DehumidifierSetCommand_finalize crc8 order d = (order', d', Inr d')
            \<and> length d' = 33
            \<and> (\<forall>i<30. d' ! i = d ! i)
            \<and> uint (d' ! 30) = (order + 1) mod 256
            \<and> d' ! 31 = crc8 (getslice d 10 30 @ [d' ! 30])
            \<and> uint (d' ! 32) = (- (\<Sum>i = 1..31. uint (d' ! i))) mod 256
            \<and> uint (d' ! 32) = (- ((\<Sum>i = 1..29. uint (d ! i)) + (order + 1) mod 256
                                    + uint (crc8 (getslice d 10 30 @ [d' ! 30])))) mod 256)"
proof -
  define ob :: byte where "ob = word_of_int ((order + 1) AND 0xFF)"
  define d2 where "d2 = d[30 := ob, 31 := crc8 (getslice (d[30 := ob]) 10 31)]"
  define w :: byte where "w = word_of_int ((NOT (sum_bytes (getslice d2 1 32)) + 1) AND 0xFF)"
  define d3 where "d3 = d2[32 := w]"
  have len2: "length d2 = 33" using assms by (simp add: d2_def)
  have len3: "length d3 = 33" using len2 by (simp add: d3_def)
  have keep: "\<forall>i<30. d3 ! i = d ! i"
    by (simp add: d3_def d2_def)
  have b30: "d3 ! 30 = ob"
    using assms by (simp add: d3_def d2_def)
  have u30: "uint (d3 ! 30) = (order + 1) mod 256"
    using and_255_range[of "order + 1"]
    by (simp add: b30 ob_def uint_word_of_int_byte and_255_mod)
  have b31: "d3 ! 31 = crc8 (getslice d 10 30 @ [d3 ! 30])"
    using assms by (simp add: d3_def d2_def getslice_order_byte)
  have "uint w = (- sum_bytes (getslice d2 1 32)) mod 256"
    unfolding w_def using and_255_range[of "NOT (sum_bytes (getslice d2 1 32)) + 1"]
    by (simp only: uint_word_of_int_byte neg_and_255)
  also have "sum_bytes (getslice d2 1 32) = (\<Sum>i = 1..31. uint (d2[32 := w] ! i))"
    using len2 by (rule sum_bytes_trailer)
  finally have sum: "uint (d3 ! 32) = (- (\<Sum>i = 1..31. uint (d3 ! i))) mod 256"
    using len2 by (simp add: d3_def)
  have "{1..31::nat} = insert 31 (insert 30 {1..29})" by auto
  then have "(\<Sum>i = 1..31. uint (d3 ! i))
               = uint (d3 ! 31) + (uint (d3 ! 30) + (\<Sum>i = 1..29. uint (d3 ! i)))"
    by simp
  also have "(\<Sum>i = 1..29. uint (d3 ! i)) = (\<Sum>i = 1..29. uint (d ! i))"
    by (rule sum.cong) (use keep in auto)
  finally have split: "(\<Sum>i = 1..31. uint (d3 ! i))
      = (\<Sum>i = 1..29. uint (d ! i)) + (order + 1) mod 256
          + uint (crc8 (getslice d 10 30 @ [d3 ! 30]))"
    using u30 b31 by simp
  have sum': "uint (d3 ! 32) = (- ((\<Sum>i = 1..29. uint (d ! i)) + (order + 1) mod 256
                                    + uint (crc8 (getslice d 10 30 @ [d3 ! 30])))) mod 256"
    using sum split by (simp only:)
  have "DehumidifierStatusCommand_finalize crc8 order d = ((order + 1) AND 0xFF, d3, Inr d3)"
    using assms by (simp add: status_finalize_33 Let_def d3_def d2_def w_def ob_def)
  moreover have "DehumidifierSetCommand_finalize crc8 order d = ((order + 1) AND 0xFF, d3, Inr d3)"
    using assms by (simp add: set_finalize_33 Let_def d3_def d2_def w_def ob_def)
  ultimately show ?thesis
    using len3 keep u30 b31 sum sum' by simp
qed

theorem finalize_checksum_witness:
  "length DehumidifierStatusCommand_init = 33
   \<and> (\<exists>order' d'. DehumidifierStatusCommand_finalize sum_list 0 DehumidifierStatusCommand_init
                     = (order', d', Inr d')
            \<and> length d' = 33
            \<and> (\<forall>i<30. d' ! i = DehumidifierStatusCommand_init ! i)
            \<and> uint (d' ! 30) = 1
            \<and> uint (d' ! 32) = (- (\<Sum>i = 1..31. uint (d' ! i))) mod 256)"
proof -
  have len: "length DehumidifierStatusCommand_init = 33"
    by (simp add: DehumidifierStatusCommand_init_def)
  have "\<exists>order' d'. DehumidifierStatusCommand_finalize sum_list 0 DehumidifierStatusCommand_init
                     = (order', d', Inr d')
            \<and> length d' = 33
            \<and> (\<forall>i<30. d' ! i = DehumidifierStatusCommand_init ! i)
            \<and> uint (d' ! 30) = 1
            \<and> uint (d' ! 32) = (- (\<Sum>i = 1..31. uint (d' ! i))) mod 256"
    using finalize_checksum [OF len, of sum_list 0] by auto
  with len show ?thesis by simp
qed

text \<open>
  Claim C1, as the code has it. For every command buffer (33 bytes), \<^verbatim>\<open>finalize\<close> of either
  class writes at offset 31 the CRC8 of the 21 bytes at the offsets 10 to 30 of the buffer
  after the order byte was stored: the 20 bytes of the body at the offsets 10 to 29,
  unchanged, followed by the new order byte. The header, the length byte, the bytes up to
  offset 9, the CRC8 byte and the checksum byte are not part of the input; the order byte
  is.
\<close>

theorem finalize_crc8_input:
  assumes "length d = 33"
  shows "(\<exists>order' d'. DehumidifierStatusCommand_finalize crc8 order d = (order', d', Inr d')
            \<and> d' ! 31 = crc8 (getslice d' 10 31)
            \<and> getslice d' 10 31 = getslice d 10 30 @ [d' ! 30]
            \<and> uint (d' ! 30) = (order + 1) mod 256)
       \<and> (\<exists>order' d'. DehumidifierSetCommand_finalize crc8 order d = (order', d', Inr d')
            \<and> d' ! 31 = crc8 (getslice d' 10 31)
            \<and> getslice d' 10 31 = getslice d 10 30 @ [d' ! 30]
            \<and> uint (d' ! 30) = (order + 1) mod 256)"
  using assms
  by (simp add: status_finalize_33 set_finalize_33 Let_def getslice_after_trailer
      getslice_order_byte and_255_mod uint_word_of_int_byte)

theorem finalize_crc8_input_witness:
  "length DehumidifierSetCommand_init = 33
   \<and> (\<exists>order' d'. DehumidifierSetCommand_finalize sum_list 7 DehumidifierSetCommand_init
                     = (order', d', Inr d')
            \<and> d' ! 31 = sum_list (getslice d' 10 31)
            \<and> getslice d' 10 31 = getslice DehumidifierSetCommand_init 10 30 @ [d' ! 30]
            \<and> uint (d' ! 30) = 8)"
proof -
  have len: "length DehumidifierSetCommand_init = 33"
    by (simp add: DehumidifierSetCommand_init_def)
  show ?thesis
    using len finalize_crc8_input [OF len, of sum_list 7] by simp
qed

text \<open>
  The claim C1 as the specification states it fails: with a function in the place of
  \<^verbatim>\<open>crc8\<close> that returns the last byte of its input, the byte that \<^verbatim>\<open>finalize\<close> stores at
  offset 31 of the status command is the order byte, not the last byte of the body, and it
  changes with the counter.
\<close>

theorem finalize_crc8_excludes_order_counterexample:
  "fst (snd (DehumidifierStatusCommand_finalize last 0 DehumidifierStatusCommand_init)) ! 31
     \<noteq> last (getslice (fst (snd (DehumidifierStatusCommand_finalize last 0
                DehumidifierStatusCommand_init))) 10 30)
   \<and> fst (snd (DehumidifierStatusCommand_finalize last 0 DehumidifierStatusCommand_init)) ! 31
     \<noteq> fst (snd (DehumidifierStatusCommand_finalize last 1 DehumidifierStatusCommand_init)) ! 31"
  by (simp add: DehumidifierStatusCommand_finalize_def DehumidifierStatusCommand_init_def
      setitem_def getslice_def sum_bytes_def Let_def)

section \<open>The setters and getters of the set command\<close>

lemma and_byte_range: "0 \<le> uint (b::byte) AND v \<and> uint b AND v \<le> 255"
proof -
  have "uint b AND v \<le> uint b" by (rule AND_upper1) simp
  then show ?thesis using uint_byte_range[of b] by simp
qed

lemma or_byte_range:
  assumes "0 \<le> x" "x \<le> 255" "0 \<le> v" "v \<le> 255"
  shows "0 \<le> x OR v \<and> x OR v \<le> (255::int)"
proof -
  have "x OR v < 2 ^ 8"
    by (rule OR_upper) (use assms in simp_all)
  then show ?thesis using assms by simp
qed

lemma field_roundtrip_int:
  assumes "v AND m = (v::int)"
  shows "((x AND NOT m) OR v) AND m = v"
  using assms by (simp add: bit.conj_disj_distrib2 and.assoc)

lemma field_frame_int:
  assumes "v AND m = (v::int)"
  shows "((x AND NOT m) OR v) AND NOT m = x AND NOT m"
proof -
  have "v AND NOT m = (v AND m) AND NOT m" using assms by simp
  also have "\<dots> = 0" by (simp add: and.assoc)
  finally show ?thesis by (simp add: bit.conj_disj_distrib2 and.assoc)
qed

lemma and_mask_self:
  assumes "0 \<le> v" "v < 2 ^ k"
  shows "v AND mask k = (v::int)"
proof -
  have "take_bit k v = v" using assms by (simp add: take_bit_int_eq_self)
  then show ?thesis by (simp add: take_bit_eq_mask)
qed

lemma and_127_self: "0 \<le> v \<Longrightarrow> v \<le> 127 \<Longrightarrow> v AND 0x7F = (v::int)"
  using and_mask_self[of v 7] by (simp add: mask_eq_exp_minus_1)

lemma and_15_self: "0 \<le> v \<Longrightarrow> v \<le> 15 \<Longrightarrow> v AND 0x0F = (v::int)"
  using and_mask_self[of v 4] by (simp add: mask_eq_exp_minus_1)

lemma iand_item_ok:
  "i < length d \<Longrightarrow> iand_item d i v = (None, d[i := word_of_int (uint (d ! i) AND v)])"
  using and_byte_range[of "d ! i" v] by (simp add: iand_item_def getitem_def setitem_def)

lemma ior_item_ok:
  "i < length d \<Longrightarrow> 0 \<le> v \<Longrightarrow> v \<le> 255 \<Longrightarrow>
   ior_item d i v = (None, d[i := word_of_int (uint (d ! i) OR v)])"
  using or_byte_range[of "uint (d ! i)" v] uint_byte_range[of "d ! i"]
  by (simp add: ior_item_def getitem_def setitem_def)

text \<open>The two statements of a setter, on a value that fits a byte.\<close>

lemma setter_ok:
  assumes "i < length d" "0 \<le> v" "v \<le> 255"
  shows "(case iand_item d i n of
            (Some e, d1) \<Rightarrow> (Some e, d1)
          | (None, d1) \<Rightarrow> ior_item d1 i v)
         = (None, d[i := word_of_int ((uint (d ! i) AND n) OR v)])"
  using assms and_byte_range[of "d ! i" n]
  by (simp add: iand_item_ok ior_item_ok uint_word_of_int_byte)

lemma stored_field:
  assumes "0 \<le> v" "v \<le> 255"
  shows "uint (word_of_int ((uint (b::byte) AND n) OR v) :: byte) = (uint b AND n) OR v"
  using or_byte_range[of "uint b AND n" v] and_byte_range[of b n] assms
  by (simp add: uint_word_of_int_byte)

lemma finalize_keeps_field:
  assumes "length d = 33" "i < 30"
  shows "\<exists>order' d2 wire. DehumidifierSetCommand_finalize crc8 order d = (order', d2, Inr wire)
           \<and> getitem wire i = Inr (uint (d ! i))"
  using assms by (simp add: set_finalize_33 Let_def getitem_def)

lemma roundtrip_target_humidity:
  assumes "length d = 33" "0 \<le> v" "v \<le> 127"
  shows "\<exists>d1 order' d2 wire. set_target_humidity v d = (None, d1)
           \<and> DehumidifierSetCommand_finalize crc8 order d1 = (order', d2, Inr wire)
           \<and> target_humidity wire = Inr v"
proof -
  let ?d1 = "d[17 := word_of_int ((uint (d ! 17) AND NOT 0x7F) OR v)]"
  have set: "set_target_humidity v d = (None, ?d1)"
    unfolding set_target_humidity_def using assms by (intro setter_ok) simp_all
  have len: "length ?d1 = 33" using assms by simp
  obtain order' d2 wire where
    fin: "DehumidifierSetCommand_finalize crc8 order ?d1 = (order', d2, Inr wire)"
    and get: "getitem wire 17 = Inr (uint (?d1 ! 17))"
    using finalize_keeps_field[OF len, of 17 crc8 order] by auto
  have "uint (?d1 ! 17) = (uint (d ! 17) AND NOT 0x7F) OR v"
    using assms by (simp add: stored_field)
  moreover have "((uint (d ! 17) AND NOT 0x7F) OR v) AND 0x7F = v"
    using field_roundtrip_int[of v "0x7F" "uint (d ! 17)"] and_127_self[of v] assms by simp
  ultimately have "target_humidity wire = Inr v"
    using get by (simp add: target_humidity_def)
  with set fin show ?thesis by blast
qed

lemma roundtrip_is_on:
  assumes "length d = 33"
  shows "\<exists>d1 order' d2 wire. set_is_on state d = (None, d1)
           \<and> DehumidifierSetCommand_finalize crc8 order d1 = (order', d2, Inr wire)
           \<and> is_on wire = Inr state"
proof -
  let ?v = "if state then 0x01 else (0::int)"
  let ?d1 = "d[11 := word_of_int ((uint (d ! 11) AND NOT 0x01) OR ?v)]"
  have set: "set_is_on state d = (None, ?d1)"
    unfolding set_is_on_def using assms by (intro setter_ok) simp_all
  have len: "length ?d1 = 33" using assms by simp
  obtain order' d2 wire where
    fin: "DehumidifierSetCommand_finalize crc8 order ?d1 = (order', d2, Inr wire)"
    and get: "getitem wire 11 = Inr (uint (?d1 ! 11))"
    using finalize_keeps_field[OF len, of 11 crc8 order] by auto
  have "uint (?d1 ! 11) = (uint (d ! 11) AND NOT 0x01) OR ?v"
    using assms by (simp add: stored_field)
  moreover have "((uint (d ! 11) AND NOT 0x01) OR ?v) AND 0x01 = ?v"
    using field_roundtrip_int[of ?v "0x01" "uint (d ! 11)"] by simp
  ultimately have "is_on wire = Inr state"
    using get by (cases state) (simp_all add: is_on_def)
  with set fin show ?thesis by blast
qed

lemma roundtrip_ion_mode:
  assumes "length d = 33"
  shows "\<exists>d1 order' d2 wire. set_ion_mode state d = (None, d1)
           \<and> DehumidifierSetCommand_finalize crc8 order d1 = (order', d2, Inr wire)
           \<and> ion_mode wire = Inr state"
proof -
  let ?v = "if state then 0x60 else (0::int)"
  let ?d1 = "d[19 := word_of_int ((uint (d ! 19) AND NOT 0x60) OR ?v)]"
  have set: "set_ion_mode state d = (None, ?d1)"
    unfolding set_ion_mode_def using assms by (intro setter_ok) simp_all
  have len: "length ?d1 = 33" using assms by simp
  obtain order' d2 wire where
    fin: "DehumidifierSetCommand_finalize crc8 order ?d1 = (order', d2, Inr wire)"
    and get: "getitem wire 19 = Inr (uint (?d1 ! 19))"
    using finalize_keeps_field[OF len, of 19 crc8 order] by auto
  have "uint (?d1 ! 19) = (uint (d ! 19) AND NOT 0x60) OR ?v"
    using assms by (simp add: stored_field)
  moreover have "((uint (d ! 19) AND NOT 0x60) OR ?v) AND 0x60 = ?v"
    using field_roundtrip_int[of ?v "0x60" "uint (d ! 19)"] by simp
  ultimately have "ion_mode wire = Inr state"
    using get by (cases state) (simp_all add: ion_mode_def)
  with set fin show ?thesis by blast
qed

lemma roundtrip_mode:
  assumes "length d = 33" "0 \<le> v" "v \<le> 15"
  shows "\<exists>d1 order' d2 wire. set_mode v d = (None, d1)
           \<and> DehumidifierSetCommand_finalize crc8 order d1 = (order', d2, Inr wire)
           \<and> mode wire = Inr v"
proof -
  let ?d1 = "d[12 := word_of_int ((uint (d ! 12) AND NOT 0x0F) OR v)]"
  have set: "set_mode v d = (None, ?d1)"
    unfolding set_mode_def using assms by (intro setter_ok) simp_all
  have len: "length ?d1 = 33" using assms by simp
  obtain order' d2 wire where
    fin: "DehumidifierSetCommand_finalize crc8 order ?d1 = (order', d2, Inr wire)"
    and get: "getitem wire 12 = Inr (uint (?d1 ! 12))"
    using finalize_keeps_field[OF len, of 12 crc8 order] by auto
  have "uint (?d1 ! 12) = (uint (d ! 12) AND NOT 0x0F) OR v"
    using assms by (simp add: stored_field)
  moreover have "((uint (d ! 12) AND NOT 0x0F) OR v) AND 0x0F = v"
    using field_roundtrip_int[of v "0x0F" "uint (d ! 12)"] and_15_self[of v] assms by simp
  ultimately have "mode wire = Inr v"
    using get by (simp add: mode_def)
  with set fin show ?thesis by blast
qed

lemma roundtrip_fan_speed:
  assumes "length d = 33" "0 \<le> v" "v \<le> 127"
  shows "\<exists>d1 order' d2 wire. set_fan_speed v d = (None, d1)
           \<and> DehumidifierSetCommand_finalize crc8 order d1 = (order', d2, Inr wire)
           \<and> fan_speed wire = Inr v"
proof -
  let ?d1 = "d[13 := word_of_int ((uint (d ! 13) AND NOT 0x7F) OR v)]"
  have set: "set_fan_speed v d = (None, ?d1)"
    unfolding set_fan_speed_def using assms by (intro setter_ok) simp_all
  have len: "length ?d1 = 33" using assms by simp
  obtain order' d2 wire where
    fin: "DehumidifierSetCommand_finalize crc8 order ?d1 = (order', d2, Inr wire)"
    and get: "getitem wire 13 = Inr (uint (?d1 ! 13))"
    using finalize_keeps_field[OF len, of 13 crc8 order] by auto
  have "uint (?d1 ! 13) = (uint (d ! 13) AND NOT 0x7F) OR v"
    using assms by (simp add: stored_field)
  moreover have "((uint (d ! 13) AND NOT 0x7F) OR v) AND 0x7F = v"
    using field_roundtrip_int[of v "0x7F" "uint (d ! 13)"] and_127_self[of v] assms by simp
  ultimately have "fan_speed wire = Inr v"
    using get by (simp add: fan_speed_def)
  with set fin show ?thesis by blast
qed

text \<open>
  Claim C5. For every set command (33 bytes) and every settable field, setting the field
  to a valid value, finalizing the command and reading the field from the bytes that
  \<^verbatim>\<open>finalize\<close> returns gives that value back. The valid values are the values that fit the
  field: both booleans for \<^verbatim>\<open>is_on\<close> and \<^verbatim>\<open>ion_mode\<close>, 0 to 15 for \<^verbatim>\<open>mode\<close> (mask 0x0F),
  0 to 127 for \<^verbatim>\<open>fan_speed\<close> and \<^verbatim>\<open>target_humidity\<close> (mask 0x7F).
\<close>

theorem set_command_roundtrip:
  assumes "length d = 33"
  shows "(\<exists>d1 order' d2 wire. set_is_on state d = (None, d1)
           \<and> DehumidifierSetCommand_finalize crc8 order d1 = (order', d2, Inr wire)
           \<and> is_on wire = Inr state)
       \<and> (0 \<le> m \<and> m \<le> 0x0F \<longrightarrow>
           (\<exists>d1 order' d2 wire. set_mode m d = (None, d1)
             \<and> DehumidifierSetCommand_finalize crc8 order d1 = (order', d2, Inr wire)
             \<and> mode wire = Inr m))
       \<and> (0 \<le> speed \<and> speed \<le> 0x7F \<longrightarrow>
           (\<exists>d1 order' d2 wire. set_fan_speed speed d = (None, d1)
             \<and> DehumidifierSetCommand_finalize crc8 order d1 = (order', d2, Inr wire)
             \<and> fan_speed wire = Inr speed))
       \<and> (0 \<le> humidity \<and> humidity \<le> 0x7F \<longrightarrow>
           (\<exists>d1 order' d2 wire. set_target_humidity humidity d = (None, d1)
             \<and> DehumidifierSetCommand_finalize crc8 order d1 = (order', d2, Inr wire)
             \<and> target_humidity wire = Inr humidity))
       \<and> (\<exists>d1 order' d2 wire. set_ion_mode ion d = (None, d1)
           \<and> DehumidifierSetCommand_finalize crc8 order d1 = (order', d2, Inr wire)
           \<and> ion_mode wire = Inr ion)"
  using roundtrip_is_on[OF assms] roundtrip_mode[OF assms] roundtrip_fan_speed[OF assms]
    roundtrip_target_humidity[OF assms] roundtrip_ion_mode[OF assms]
  by simp

theorem set_command_roundtrip_witness:
  "length DehumidifierSetCommand_init = 33
   \<and> (\<exists>d1 order' d2 wire. set_is_on True DehumidifierSetCommand_init = (None, d1)
           \<and> DehumidifierSetCommand_finalize sum_list 0 d1 = (order', d2, Inr wire)
           \<and> is_on wire = Inr True)
   \<and> (\<exists>d1 order' d2 wire. set_mode 3 DehumidifierSetCommand_init = (None, d1)
           \<and> DehumidifierSetCommand_finalize sum_list 0 d1 = (order', d2, Inr wire)
           \<and> mode wire = Inr 3)
   \<and> (\<exists>d1 order' d2 wire. set_fan_speed 80 DehumidifierSetCommand_init = (None, d1)
           \<and> DehumidifierSetCommand_finalize sum_list 0 d1 = (order', d2, Inr wire)
           \<and> fan_speed wire = Inr 80)
   \<and> (\<exists>d1 order' d2 wire. set_target_humidity 55 DehumidifierSetCommand_init = (None, d1)
           \<and> DehumidifierSetCommand_finalize sum_list 0 d1 = (order', d2, Inr wire)
           \<and> target_humidity wire = Inr 55)
   \<and> (\<exists>d1 order' d2 wire. set_ion_mode True DehumidifierSetCommand_init = (None, d1)
           \<and> DehumidifierSetCommand_finalize sum_list 0 d1 = (order', d2, Inr wire)
           \<and> ion_mode wire = Inr True)"
proof -
  have len: "length DehumidifierSetCommand_init = 33"
    by (simp add: DehumidifierSetCommand_init_def)
  show ?thesis
    using len set_command_roundtrip [OF len, of True sum_list 0 3 80 55 True] by simp
qed

lemma stored_field_word:
  assumes "v AND m = (v::int)"
  shows "(word_of_int ((uint b AND NOT m) OR v) :: byte) AND NOT (word_of_int m)
           = b AND NOT (word_of_int m)"
proof -
  have "((uint b AND NOT m) OR v) AND NOT m = uint b AND NOT m"
    using assms by (rule field_frame_int)
  then have "(word_of_int (((uint b AND NOT m) OR v) AND NOT m) :: byte)
               = word_of_int (uint b AND NOT m)"
    by simp
  then show ?thesis
    by (simp only: of_int_and_eq of_int_not_eq of_int_or_eq word_of_int_uint)
qed

lemma setter_frame:
  assumes "i < length d" "0 \<le> v" "v \<le> 255" "v AND m = v"
  shows "\<exists>d'. (case iand_item d i (NOT m) of
                  (Some e, d1) \<Rightarrow> (Some e, d1)
                | (None, d1) \<Rightarrow> ior_item d1 i v) = (None, d')
          \<and> length d' = length d
          \<and> (\<forall>j. j \<noteq> i \<longrightarrow> d' ! j = d ! j)
          \<and> d' ! i AND NOT (word_of_int m) = d ! i AND NOT (word_of_int m)"
  using assms by (simp add: setter_ok stored_field_word)

text \<open>
  Claim C8, as the code has it. For every set command (33 bytes), every settable field and
  every value that fits the field's mask (both booleans for \<^verbatim>\<open>is_on\<close> and \<^verbatim>\<open>ion_mode\<close>, 0 to
  15 for \<^verbatim>\<open>mode\<close>, 0 to 127 for \<^verbatim>\<open>fan_speed\<close> and \<^verbatim>\<open>target_humidity\<close>), the setter raises
  nothing, keeps the length, leaves every other byte as it was and leaves the bits outside
  the mask in the field's byte as they were.
\<close>

theorem setters_change_only_their_mask:
  assumes "length d = 33"
  shows "(\<exists>d'. set_is_on state d = (None, d') \<and> length d' = length d
            \<and> (\<forall>j. j \<noteq> 11 \<longrightarrow> d' ! j = d ! j)
            \<and> d' ! 11 AND NOT 0x01 = d ! 11 AND NOT 0x01)
       \<and> (0 \<le> m \<and> m \<le> 0x0F \<longrightarrow>
           (\<exists>d'. set_mode m d = (None, d') \<and> length d' = length d
            \<and> (\<forall>j. j \<noteq> 12 \<longrightarrow> d' ! j = d ! j)
            \<and> d' ! 12 AND NOT 0x0F = d ! 12 AND NOT 0x0F))
       \<and> (0 \<le> speed \<and> speed \<le> 0x7F \<longrightarrow>
           (\<exists>d'. set_fan_speed speed d = (None, d') \<and> length d' = length d
            \<and> (\<forall>j. j \<noteq> 13 \<longrightarrow> d' ! j = d ! j)
            \<and> d' ! 13 AND NOT 0x7F = d ! 13 AND NOT 0x7F))
       \<and> (0 \<le> humidity \<and> humidity \<le> 0x7F \<longrightarrow>
           (\<exists>d'. set_target_humidity humidity d = (None, d') \<and> length d' = length d
            \<and> (\<forall>j. j \<noteq> 17 \<longrightarrow> d' ! j = d ! j)
            \<and> d' ! 17 AND NOT 0x7F = d ! 17 AND NOT 0x7F))
       \<and> (\<exists>d'. set_ion_mode ion d = (None, d') \<and> length d' = length d
            \<and> (\<forall>j. j \<noteq> 19 \<longrightarrow> d' ! j = d ! j)
            \<and> d' ! 19 AND NOT 0x60 = d ! 19 AND NOT 0x60)"
proof -
  have a: "\<exists>d'. set_is_on state d = (None, d') \<and> length d' = length d
            \<and> (\<forall>j. j \<noteq> 11 \<longrightarrow> d' ! j = d ! j)
            \<and> d' ! 11 AND NOT 0x01 = d ! 11 AND NOT 0x01"
    unfolding set_is_on_def
    using setter_frame[of 11 d "if state then 0x01 else 0" "0x01"] assms by simp
  have b: "\<exists>d'. set_mode m d = (None, d') \<and> length d' = length d
            \<and> (\<forall>j. j \<noteq> 12 \<longrightarrow> d' ! j = d ! j)
            \<and> d' ! 12 AND NOT 0x0F = d ! 12 AND NOT 0x0F" if "0 \<le> m" "m \<le> 0x0F"
    unfolding set_mode_def
    using setter_frame[of 12 d m "0x0F"] assms that and_15_self[of m] by simp
  have c: "\<exists>d'. set_fan_speed speed d = (None, d') \<and> length d' = length d
            \<and> (\<forall>j. j \<noteq> 13 \<longrightarrow> d' ! j = d ! j)
            \<and> d' ! 13 AND NOT 0x7F = d ! 13 AND NOT 0x7F" if "0 \<le> speed" "speed \<le> 0x7F"
    unfolding set_fan_speed_def
    using setter_frame[of 13 d speed "0x7F"] assms that and_127_self[of speed] by simp
  have e: "\<exists>d'. set_target_humidity humidity d = (None, d') \<and> length d' = length d
            \<and> (\<forall>j. j \<noteq> 17 \<longrightarrow> d' ! j = d ! j)
            \<and> d' ! 17 AND NOT 0x7F = d ! 17 AND NOT 0x7F" if "0 \<le> humidity" "humidity \<le> 0x7F"
    unfolding set_target_humidity_def
    using setter_frame[of 17 d humidity "0x7F"] assms that and_127_self[of humidity] by simp
  have f: "\<exists>d'. set_ion_mode ion d = (None, d') \<and> length d' = length d
            \<and> (\<forall>j. j \<noteq> 19 \<longrightarrow> d' ! j = d ! j)
            \<and> d' ! 19 AND NOT 0x60 = d ! 19 AND NOT 0x60"
    unfolding set_ion_mode_def
    using setter_frame[of 19 d "if ion then 0x60 else 0" "0x60"] assms by simp
  from a b c e f show ?thesis by blast
qed


theorem setters_change_only_their_mask_witness:
  "length DehumidifierSetCommand_init = 33
   \<and> (\<exists>d'. set_mode 3 DehumidifierSetCommand_init = (None, d')
          \<and> length d' = length DehumidifierSetCommand_init
          \<and> (\<forall>j. j \<noteq> 12 \<longrightarrow> d' ! j = DehumidifierSetCommand_init ! j)
          \<and> d' ! 12 AND NOT 0x0F = DehumidifierSetCommand_init ! 12 AND NOT 0x0F)
   \<and> (\<exists>d'. set_fan_speed 80 DehumidifierSetCommand_init = (None, d')
          \<and> length d' = length DehumidifierSetCommand_init
          \<and> (\<forall>j. j \<noteq> 13 \<longrightarrow> d' ! j = DehumidifierSetCommand_init ! j)
          \<and> d' ! 13 AND NOT 0x7F = DehumidifierSetCommand_init ! 13 AND NOT 0x7F)
   \<and> (\<exists>d'. set_target_humidity 55 DehumidifierSetCommand_init = (None, d')
          \<and> length d' = length DehumidifierSetCommand_init
          \<and> (\<forall>j. j \<noteq> 17 \<longrightarrow> d' ! j = DehumidifierSetCommand_init ! j)
          \<and> d' ! 17 AND NOT 0x7F = DehumidifierSetCommand_init ! 17 AND NOT 0x7F)"
proof -
  have len: "length DehumidifierSetCommand_init = 33"
    by (simp add: DehumidifierSetCommand_init_def)
  show ?thesis
    using len setters_change_only_their_mask [OF len, of True 3 80 55 True] by simp
qed

text \<open>
  The claim C8 as the specification states it, for every value assigned, fails: the
  setters or the value in without masking it. Assigning 0x80 to \<^verbatim>\<open>target_humidity\<close> of a
  new set command raises nothing and sets bit 7 of byte 17, which is outside the mask 0x7F.
\<close>

theorem setter_changes_sibling_bit_counterexample:
  "fst (set_target_humidity 0x80 DehumidifierSetCommand_init) = None
   \<and> snd (set_target_humidity 0x80 DehumidifierSetCommand_init) ! 17 AND NOT 0x7F
       \<noteq> DehumidifierSetCommand_init ! 17 AND NOT 0x7F"
  by (simp add: set_target_humidity_def iand_item_def ior_item_def getitem_def setitem_def
      DehumidifierSetCommand_init_def)

section \<open>Decoding a response\<close>

text \<open>
  Claim C3, evaluated on the code. The claim asks that a raw timer value 0x7F decodes to
  "not set" with hour and minutes that do not come from the bits of 0x7F, whatever the
  minute byte. The \<^verbatim>\<open>set\<close> flag is false for both timers. But for a response whose bytes 4
  and 5 are 0x7F and whose byte 6 is 0x25, \<^verbatim>\<open>on_timer\<close> gives hour 0 and minutes 3 (the two
  low bits of 0x7F), and \<^verbatim>\<open>off_timer\<close>, which has none of the guards of \<^verbatim>\<open>on_timer\<close>, gives
  hour 31 and minutes 7; with byte 6 equal to 0 the minutes of \<^verbatim>\<open>off_timer\<close> are 3, so they
  depend on the minute byte.
\<close>

theorem timer_sentinel_decoded_from_bits:
  "(case DehumidifierResponse_init
           [0, 0, 0, 0, 0x7F, 0x7F, 0x25, 0, 0, 0, 0, 0, 0, 0, 0, 0, 0, 0, 0, 0, 0, 0] of
      Inl e \<Rightarrow> False
    | Inr r \<Rightarrow>
        timer_set (on_timer r) = False \<and> hour (on_timer r) = 0 \<and> minutes (on_timer r) = 3
        \<and> timer_set (off_timer r) = False \<and> hour (off_timer r) = 31
        \<and> minutes (off_timer r) = 7)
   \<and> (case DehumidifierResponse_init
           [0, 0, 0, 0, 0x7F, 0x7F, 0x00, 0, 0, 0, 0, 0, 0, 0, 0, 0, 0, 0, 0, 0, 0, 0] of
      Inl e \<Rightarrow> False
    | Inr r \<Rightarrow>
        timer_set (off_timer r) = False \<and> hour (off_timer r) = 31
        \<and> minutes (off_timer r) = 3)"
  by (simp add: DehumidifierResponse_init_def bind_err_def getitem_def on_timer_def
      off_timer_def)

lemma init_short:
  assumes "length data < 22"
  shows "DehumidifierResponse_init data = Inl IndexError"
  using assms by (simp add: DehumidifierResponse_init_def bind_err_def getitem_def)

lemma init_long:
  assumes "22 \<le> length data"
  shows "\<exists>r. DehumidifierResponse_init data = Inr r"
  using assms by (simp add: DehumidifierResponse_init_def bind_err_def getitem_def)

lemma init_ignores_header:
  "DehumidifierResponse_init (data[0 := h]) = DehumidifierResponse_init data"
  by (simp add: DehumidifierResponse_init_def getitem_def)

text \<open>
  Claim C9, as the code has it. The constructor reads the offsets up to 0x15 and nothing
  else decides whether a buffer is accepted: a buffer shorter than 22 bytes raises
  \<^verbatim>\<open>IndexError\<close> and no response object, hence no partly decoded state, exists; a buffer of
  22 bytes or more is decoded. Byte 0 is never read: replacing it by any byte gives the
  same outcome, so there is no header check.
\<close>

theorem response_decoding_length_only:
  "((length data < 22 \<and> DehumidifierResponse_init data = Inl IndexError)
     \<or> (22 \<le> length data \<and> (\<exists>r. DehumidifierResponse_init data = Inr r)))
   \<and> DehumidifierResponse_init (data[0 := h]) = DehumidifierResponse_init data"
  using init_short[of data] init_long[of data] init_ignores_header[of data h]
  by (cases "length data < 22") simp_all

theorem response_decoding_length_only_witness:
  "DehumidifierResponse_init [0xAA, 0x20, 0xA1] = Inl IndexError"
  using response_decoding_length_only [of "[0xAA, 0x20, 0xA1]" 0] by simp

text \<open>
  The claim C9 as the specification states it fails for the header: two buffers of 22 bytes
  that differ only in byte 0, which is 0x00 in one and 0xAA in the other, both decode, to
  the same state.
\<close>

theorem response_header_not_checked_counterexample:
  "DehumidifierResponse_init
      [0x00, 0, 0, 0, 0, 0, 0, 0, 0, 0, 0, 0, 0, 0, 0, 0, 0, 0, 0, 0, 0, 0]
    = Inr \<lparr> resp_is_on = False, resp_mode = 0, resp_fan_speed = 0, on_timer_value = 0,
            on_timer_minutes = 0, off_timer_value = 0, off_timer_minutes = 0,
            resp_target_humidity = 0, resp_ion_mode = False, resp_tank_full = False,
            resp_current_humidity = 0, resp_err_code = 0 \<rparr>
   \<and> DehumidifierResponse_init
      [0xAA, 0, 0, 0, 0, 0, 0, 0, 0, 0, 0, 0, 0, 0, 0, 0, 0, 0, 0, 0, 0, 0]
    = Inr \<lparr> resp_is_on = False, resp_mode = 0, resp_fan_speed = 0, on_timer_value = 0,
            on_timer_minutes = 0, off_timer_value = 0, off_timer_minutes = 0,
            resp_target_humidity = 0, resp_ion_mode = False, resp_tank_full = False,
            resp_current_humidity = 0, resp_err_code = 0 \<rparr>"
  by (simp add: DehumidifierResponse_init_def bind_err_def getitem_def)

section \<open>The cloud request state machine\<close>

lemma request_success:
  assumes "server endpoint (count_list (history c) endpoint) = Envelope 0 msg res"
  shows "request server budget endpoint c = (Inr res, c\<lparr>history := history c @ [endpoint]\<rparr>)"
  using assms by (subst request.simps) (simp add: post_def classify_def)

lemma request_throw:
  assumes "server endpoint (count_list (history c) endpoint) = Envelope code msg res"
    and "code \<notin> {0, 3106, 3144, 3102, 7610, 9999}"
  shows "request server budget endpoint c
           = (Inl (CloudError code msg), c\<lparr>history := history c @ [endpoint]\<rparr>)"
  using assms by (subst request.simps) (simp add: post_def classify_def)

lemma login_success:
  assumes "server ''user/login/id/get'' (count_list (history c) ''user/login/id/get'')
             = Envelope 0 msg1 login_id"
    and "server ''user/login'' (count_list (history c) ''user/login'') = Envelope 0 msg2 s"
  shows "login server budget c
           = (Inr (), c\<lparr>session := Some (login_id, s),
                        history := history c @ [''user/login/id/get'', ''user/login'']\<rparr>)"
  using assms by (simp add: request_success del: request.simps)

text \<open>
  Claim C2, as amended. For every reply whose error code is none of 0, 3106, 3144, 3102,
  7610 and 9999, \<^verbatim>\<open>api_request\<close>, called without the need to log in first, raises
  \<^verbatim>\<open>CloudError\<close> with that code and message, and the request just sent is the only one it
  adds to the history, whatever the retry budget.
\<close>

theorem generic_cloud_error_not_retried:
  assumes "server endpoint (count_list (history c) endpoint) = Envelope code msg res"
    and "code \<notin> {0, 3106, 3144, 3102, 7610, 9999}"
    and "authenticate \<longrightarrow> session c \<noteq> None"
  shows "api_request server budget endpoint authenticate c
           = (Inl (CloudError code msg), c\<lparr>history := history c @ [endpoint]\<rparr>)"
  using assms by (auto simp add: api_request_def request_throw simp del: request.simps)

theorem generic_cloud_error_not_retried_witness:
  "api_request mock_request_error 3 ''dummy'' False cloud_client
     = (Inl (CloudError 2 ''error message''), cloud_client\<lparr>history := [''dummy'']\<rparr>)"
  using generic_cloud_error_not_retried
          [of mock_request_error "''dummy''" cloud_client 2 "''error message''" None False 3]
  by (simp add: mock_request_error_def cloud_client_def)

lemma ignore_exhausts_budget:
  assumes "\<And>k. server endpoint k = Envelope 9999 msg res"
  shows "request server budget endpoint c
           = (Inl (too_many_retries endpoint),
              c\<lparr>history := history c @ replicate (Suc budget) endpoint\<rparr>)"
proof (induction budget arbitrary: c)
  case 0
  show ?case using assms by (subst request.simps) (simp add: post_def classify_def)
next
  case (Suc b)
  show ?case
    using assms Suc.IH
    by (subst request.simps) (simp add: post_def classify_def replicate_app_Cons_same del: request.simps)
qed

text \<open>
  The claim C2 as the specification states it fails at its own example, 9999: against the
  mock of \<^verbatim>\<open>test_request_too_many_retries\<close>, \<^verbatim>\<open>api_request\<close> sends the request again until
  the budget (3 here) is used up, and raises \<^verbatim>\<open>CloudRequestError\<close> "Too many retries while
  calling too-many-retries", which is what that test expects.
\<close>

theorem error_9999_is_retried_counterexample:
  "fst (api_request mock_too_many_retries 3 ''too-many-retries'' False cloud_client)
     = Inl (CloudRequestError ''Too many retries while calling too-many-retries'')
   \<and> fst (api_request mock_too_many_retries 3 ''too-many-retries'' False cloud_client)
     \<noteq> Inl (CloudError 9999 ''internal error - ignore'')
   \<and> history (snd (api_request mock_too_many_retries 3 ''too-many-retries'' False cloud_client))
     = [''too-many-retries'', ''too-many-retries'', ''too-many-retries'', ''too-many-retries'']"
proof -
  have "request mock_too_many_retries 3 ''too-many-retries'' cloud_client
          = (Inl (too_many_retries ''too-many-retries''),
             cloud_client\<lparr>history := history cloud_client @ replicate (Suc 3) ''too-many-retries''\<rparr>)"
    by (rule ignore_exhausts_budget) (simp add: mock_too_many_retries_def)
  then show ?thesis
    by (simp add: api_request_def too_many_retries_def cloud_client_def numeral_3_eq_3
        del: request.simps)
qed

text \<open>
  Claim C4. When the reply to a request is error code 3106, the two login endpoints
  answer with success and the next reply to the request is a success, then \<^verbatim>\<open>api_request\<close>
  (called without the need to log in first, with a budget of at least one restart) sends
  exactly four requests, in this order: the request, the login-id fetch, the login, the
  request again; it stores the new Session and returns the result of the second reply.
\<close>

theorem session_restart_relogin_then_retry:
  assumes "server endpoint (count_list (history c) endpoint) = Envelope 3106 msg res0"
    and "server ''user/login/id/get'' (count_list (history c) ''user/login/id/get'')
           = Envelope 0 msg1 login_id"
    and "server ''user/login'' (count_list (history c) ''user/login'') = Envelope 0 msg2 s"
    and "server endpoint (Suc (count_list (history c) endpoint)) = Envelope 0 msg3 res"
    and "endpoint \<noteq> ''user/login/id/get''" and "endpoint \<noteq> ''user/login''"
    and "authenticate \<longrightarrow> session c \<noteq> None"
  shows "api_request server (Suc budget) endpoint authenticate c
           = (Inr res,
              c\<lparr>session := Some (login_id, s),
                history := history c @ [endpoint, ''user/login/id/get'', ''user/login'', endpoint]\<rparr>)"
proof -
  let ?c1 = "c\<lparr>history := history c @ [endpoint], session := None\<rparr>"
  have l: "login server budget ?c1
             = (Inr (), ?c1\<lparr>session := Some (login_id, s),
                  history := history ?c1 @ [''user/login/id/get'', ''user/login'']\<rparr>)"
    by (rule login_success) (use assms in simp_all)
  let ?c2 = "?c1\<lparr>session := Some (login_id, s),
                  history := history ?c1 @ [''user/login/id/get'', ''user/login'']\<rparr>"
  have r: "request server budget endpoint ?c2
             = (Inr res, ?c2\<lparr>history := history ?c2 @ [endpoint]\<rparr>)"
    by (rule request_success[where msg = msg3]) (use assms in simp)
  have "request server (Suc budget) endpoint c
          = (Inr res, ?c2\<lparr>history := history ?c2 @ [endpoint]\<rparr>)"
    using assms(1) l r
    by (subst request.simps) (simp add: post_def classify_def del: request.simps login.simps)
  then show ?thesis
    using assms(7) by (auto simp add: api_request_def simp del: request.simps)
qed

theorem session_restart_relogin_then_retry_witness:
  "api_request mock_session_restart 3 ''dummy'' False cloud_client
     = (Inr (Some ''response text''),
        \<lparr> session = Some (Some ''test-login'', Some ''session-1''), home_groups = None,
          appliance_list = None,
          history = [''dummy'', ''user/login/id/get'', ''user/login'', ''dummy''] \<rparr>)"
  using session_restart_relogin_then_retry
          [of mock_session_restart "''dummy''" cloud_client "''session restart''" None
              "[]" "Some ''test-login''" "[]" "Some ''session-1''" "[]" "Some ''response text''"
              False 2]
  by (simp add: mock_session_restart_def cloud_client_def numeral_3_eq_3)

end
